theory Spec2Isabelle
  imports Main "HOL-Library.Word"
begin

unbundle bit_operations_syntax

section \<open>Values shared by the target state and its collaborators\<close>

text \<open>
  Go's \<^verbatim>\<open>[]byte\<close> and \<^verbatim>\<open>string\<close> are both byte sequences here (\<^typ>\<open>string\<close>,
  one \<^typ>\<open>char\<close> per byte); \<^verbatim>\<open>os.FileMode\<close> is a \<^verbatim>\<open>uint32\<close>. An \<^verbatim>\<open>error\<close> value is
  opaque to \<^verbatim>\<open>targetstateentry.go\<close>: it is only compared with \<^verbatim>\<open>nil\<close> and returned, so
  a returned error is \<open>Some e\<close> and \<^verbatim>\<open>nil\<close> is \<open>None\<close>.
\<close>

datatype error = Error string

type_synonym FileMode = "32 word"

text \<open>An instant of \<^verbatim>\<open>time.Time\<close>; \<open>0\<close> stands for the zero value \<^verbatim>\<open>time.Time{}\<close>.\<close>

type_synonym Time = int

text \<open>\<^verbatim>\<open>scriptOnceState\<close> (lines 47-51): what is recorded for a script that ran once.\<close>

record scriptOnceState =
  Name :: string
  ExecutedAt :: Time

section \<open>Library functions the file calls\<close>

subsection \<open>\<^verbatim>\<open>crypto/sha256\<close>\<close>

text \<open>
  Modelled from the spec: the checksum of a \<^verbatim>\<open>lazyContents\<close> (declared outside
  \<^verbatim>\<open>targetstateentry.go\<close>) is the SHA-256 digest of the content. The digest is the one of
  FIPS 180-4: 32-bit words, big-endian, 64 rounds per 64-byte block.
\<close>

definition rotr :: "nat \<Rightarrow> 32 word \<Rightarrow> 32 word" where
  "rotr n x = drop_bit n x OR push_bit (32 - n) x"

definition ch :: "32 word \<Rightarrow> 32 word \<Rightarrow> 32 word \<Rightarrow> 32 word" where
  "ch x y z = (x AND y) XOR (NOT x AND z)"

definition maj :: "32 word \<Rightarrow> 32 word \<Rightarrow> 32 word \<Rightarrow> 32 word" where
  "maj x y z = (x AND y) XOR (x AND z) XOR (y AND z)"

definition bsig0 :: "32 word \<Rightarrow> 32 word" where
  "bsig0 x = rotr 2 x XOR rotr 13 x XOR rotr 22 x"

definition bsig1 :: "32 word \<Rightarrow> 32 word" where
  "bsig1 x = rotr 6 x XOR rotr 11 x XOR rotr 25 x"

definition ssig0 :: "32 word \<Rightarrow> 32 word" where
  "ssig0 x = rotr 7 x XOR rotr 18 x XOR drop_bit 3 x"

definition ssig1 :: "32 word \<Rightarrow> 32 word" where
  "ssig1 x = rotr 17 x XOR rotr 19 x XOR drop_bit 10 x"

definition sha256K :: "32 word list" where
  "sha256K =
    [0x428A2F98, 0x71374491, 0xB5C0FBCF, 0xE9B5DBA5, 0x3956C25B, 0x59F111F1, 0x923F82A4, 0xAB1C5ED5,
     0xD807AA98, 0x12835B01, 0x243185BE, 0x550C7DC3, 0x72BE5D74, 0x80DEB1FE, 0x9BDC06A7, 0xC19BF174,
     0xE49B69C1, 0xEFBE4786, 0x0FC19DC6, 0x240CA1CC, 0x2DE92C6F, 0x4A7484AA, 0x5CB0A9DC, 0x76F988DA,
     0x983E5152, 0xA831C66D, 0xB00327C8, 0xBF597FC7, 0xC6E00BF3, 0xD5A79147, 0x06CA6351, 0x14292967,
     0x27B70A85, 0x2E1B2138, 0x4D2C6DFC, 0x53380D13, 0x650A7354, 0x766A0ABB, 0x81C2C92E, 0x92722C85,
     0xA2BFE8A1, 0xA81A664B, 0xC24B8B70, 0xC76C51A3, 0xD192E819, 0xD6990624, 0xF40E3585, 0x106AA070,
     0x19A4C116, 0x1E376C08, 0x2748774C, 0x34B0BCB5, 0x391C0CB3, 0x4ED8AA4A, 0x5B9CCA4F, 0x682E6FF3,
     0x748F82EE, 0x78A5636F, 0x84C87814, 0x8CC70208, 0x90BEFFFA, 0xA4506CEB, 0xBEF9A3F7, 0xC67178F2]"

definition sha256Init :: "32 word list" where
  "sha256Init =
    [0x6A09E667, 0xBB67AE85, 0x3C6EF372, 0xA54FF53A, 0x510E527F, 0x9B05688C, 0x1F83D9AB, 0x5BE0CD19]"

text \<open>Padding: the byte \<open>0x80\<close>, zero bytes up to 56 modulo 64, the bit length on 64 bits.\<close>

definition pad :: "string \<Rightarrow> string" where
  "pad m =
     (let l = length m
      in m @ [CHR 0x80] @ replicate ((119 - l mod 64) mod 64) (CHR 0x00)
           @ map (\<lambda>i. char_of (uint (drop_bit i (word_of_nat (8 * l) :: 64 word))))
               [56, 48, 40, 32, 24, 16, 8, 0])"

fun bigEndianWords :: "string \<Rightarrow> 32 word list" where
  "bigEndianWords (a # b # c # d # bs) =
     (push_bit 24 (of_char a) OR push_bit 16 (of_char b) OR push_bit 8 (of_char c) OR of_char d)
       # bigEndianWords bs"
| "bigEndianWords _ = []"

text \<open>The message schedule: \<open>schedule 48\<close> extends the 16 words of a block to 64.\<close>

fun schedule :: "nat \<Rightarrow> 32 word list \<Rightarrow> 32 word list" where
  "schedule 0 w = w"
| "schedule (Suc n) w =
     (let t = length w
      in schedule n (w @ [ssig1 (w ! (t - 2)) + w ! (t - 7) + ssig0 (w ! (t - 15)) + w ! (t - 16)]))"

fun round :: "32 word list \<Rightarrow> 32 word \<times> 32 word \<Rightarrow> 32 word list" where
  "round [a, b, c, d, e, f, g, h] (k, w) =
     (let t1 = h + bsig1 e + ch e f g + k + w;
          t2 = bsig0 a + maj a b c
      in [t1 + t2, a, b, c, d + t1, e, f, g])"
| "round v _ = v"

definition block :: "32 word list \<Rightarrow> string \<Rightarrow> 32 word list" where
  "block h bs = map2 (+) h (foldl round h (zip sha256K (schedule 48 (bigEndianWords bs))))"

function blocks :: "32 word list \<Rightarrow> string \<Rightarrow> 32 word list" where
  "blocks h bs = (if length bs < 64 then h else blocks (block h (take 64 bs)) (drop 64 bs))"
  by pat_completeness auto
termination
  by (relation "measure (\<lambda>(h, bs). length bs)") auto

definition bigEndianBytes :: "32 word \<Rightarrow> string" where
  "bigEndianBytes w = map (\<lambda>i. char_of (uint (drop_bit i w))) [24, 16, 8, 0]"

definition sha256Sum :: "string \<Rightarrow> string" where
  "sha256Sum m = concat (map bigEndianBytes (blocks sha256Init (pad m)))"

subsection \<open>\<^verbatim>\<open>encoding/hex\<close>\<close>

definition hexDigit :: "nat \<Rightarrow> char" where
  "hexDigit n = ''0123456789abcdef'' ! n"

text \<open>\<^verbatim>\<open>hex.EncodeToString\<close>: two lower-case digits per byte, high nibble first.\<close>

definition EncodeToString :: "string \<Rightarrow> string" where
  "EncodeToString bs =
     concat (map (\<lambda>c. [hexDigit ((of_char c :: nat) div 16), hexDigit ((of_char c :: nat) mod 16)]) bs)"

subsection \<open>\<^verbatim>\<open>bytes.TrimSpace\<close>\<close>

text \<open>
  \<^verbatim>\<open>bytes.TrimSpace\<close> removes, at both ends, the white space of \<^verbatim>\<open>unicode.IsSpace\<close>, read
  as UTF-8: the six ASCII spaces, U+0085, U+00A0, U+1680, U+2000 to U+200A, U+2028, U+2029,
  U+202F, U+205F and U+3000. A byte sequence that is not the UTF-8 encoding of one of
  them is not white space.
\<close>

definition spaceRunes :: "string list" where
  "spaceRunes =
    [[CHR 0x09], [CHR 0x0A], [CHR 0x0B], [CHR 0x0C], [CHR 0x0D], [CHR 0x20],
     [CHR 0xC2, CHR 0x85], [CHR 0xC2, CHR 0xA0], [CHR 0xE1, CHR 0x9A, CHR 0x80],
     [CHR 0xE2, CHR 0x80, CHR 0x80], [CHR 0xE2, CHR 0x80, CHR 0x81], [CHR 0xE2, CHR 0x80, CHR 0x82],
     [CHR 0xE2, CHR 0x80, CHR 0x83], [CHR 0xE2, CHR 0x80, CHR 0x84], [CHR 0xE2, CHR 0x80, CHR 0x85],
     [CHR 0xE2, CHR 0x80, CHR 0x86], [CHR 0xE2, CHR 0x80, CHR 0x87], [CHR 0xE2, CHR 0x80, CHR 0x88],
     [CHR 0xE2, CHR 0x80, CHR 0x89], [CHR 0xE2, CHR 0x80, CHR 0x8A], [CHR 0xE2, CHR 0x80, CHR 0xA8],
     [CHR 0xE2, CHR 0x80, CHR 0xA9], [CHR 0xE2, CHR 0x80, CHR 0xAF], [CHR 0xE2, CHR 0x81, CHR 0x9F],
     [CHR 0xE3, CHR 0x80, CHR 0x80]]"

text \<open>The width in bytes of the white-space rune a sequence starts (ends) with, or 0.\<close>

definition leadingSpace :: "string \<Rightarrow> nat" where
  "leadingSpace bs =
     (case filter (\<lambda>e. take (length e) bs = e) spaceRunes of [] \<Rightarrow> 0 | e # _ \<Rightarrow> length e)"

definition trailingSpace :: "string \<Rightarrow> nat" where
  "trailingSpace bs =
     (case filter (\<lambda>e. drop (length bs - length e) bs = e) spaceRunes of
        [] \<Rightarrow> 0 | e # _ \<Rightarrow> length e)"

fun trimLeft :: "string \<Rightarrow> string" where
  "trimLeft [] = []"
| "trimLeft (c # cs) =
     (if leadingSpace (c # cs) = 0 then c # cs else trimLeft (drop (leadingSpace (c # cs) - 1) cs))"

function trimRight :: "string \<Rightarrow> string" where
  "trimRight bs =
     (if bs = [] \<or> trailingSpace bs = 0 then bs
      else trimRight (take (length bs - trailingSpace bs) bs))"
  by pat_completeness auto
termination
  by (relation "measure length") auto

definition TrimSpace :: "string \<Rightarrow> string" where
  "TrimSpace bs = trimRight (trimLeft bs)"

section \<open>The System and the rest of the environment\<close>

text \<open>
  Modelled from the spec: the \<^verbatim>\<open>System\<close> interface is declared outside
  \<^verbatim>\<open>targetstateentry.go\<close>; the spec lists its eight methods. A call is recorded with its
  arguments (a path, content and permissions; a link target and a path; a script name
  and content; a bucket, a key and a value).
\<close>

datatype call =
    WriteFile string string FileMode
  | Chmod string FileMode
  | Mkdir string FileMode
  | RemoveAll string
  | WriteSymlink string string
  | RunScript string string
  | Get string string
  | Set string string string

text \<open>The lazily resolved values of one reconciliation: the target's and the destination's.\<close>

datatype lazy = OfTargetContents | OfTargetLinkname | OfDestContents | OfDestLinkname

text \<open>
  Everything outside the entry that its methods read or change:
  \<^item> \<open>calls\<close>: the calls the System has received, oldest first;
  \<^item> \<open>respond\<close>: whether the System fails a call, given the calls before it (any
    deterministic System is such a function);
  \<^item> \<open>buckets\<close>: the System's key-value store, read by \<open>Get\<close> and written by \<open>Set\<close>;
  \<^item> \<open>now\<close>: the clock \<^verbatim>\<open>time.Now()\<close> reads;
  \<^item> \<open>Marshal\<close>: \<^verbatim>\<open>json.Marshal\<close> on a \<^verbatim>\<open>scriptOnceState\<close>;
  \<^item> \<open>forced\<close>: the lazy values resolved so far, in the order of their first resolution.
\<close>

record world =
  calls :: "call list"
  respond :: "call list \<Rightarrow> call \<Rightarrow> error option"
  buckets :: "string \<Rightarrow> string \<Rightarrow> string option"
  now :: Time
  Marshal :: "scriptOnceState \<Rightarrow> error + string"
  forced :: "lazy list"

text \<open>
  Modelled from the spec: a method of the System that returns only an error; the call is
  recorded and answered.
\<close>

definition invoke :: "call \<Rightarrow> world \<Rightarrow> error option \<times> world" where
  "invoke c s = (respond s (calls s) c, s\<lparr>calls := calls s @ [c]\<rparr>)"

text \<open>
  Modelled from the spec: \<^verbatim>\<open>s.Get(bucket, key)\<close> returns the stored value, \<open>None\<close> for
  \<^verbatim>\<open>nil\<close>, unless the call fails.
\<close>

definition invokeGet :: "string \<Rightarrow> string \<Rightarrow> world \<Rightarrow> (error + string option) \<times> world" where
  "invokeGet bucket key s =
     (case invoke (Get bucket key) s of
        (Some err, s') \<Rightarrow> (Inl err, s')
      | (None, s') \<Rightarrow> (Inr (buckets s' bucket key), s'))"

text \<open>
  Modelled from the spec: \<^verbatim>\<open>s.Set(bucket, key, value)\<close> stores the value unless the call
  fails.
\<close>

definition invokeSet :: "string \<Rightarrow> string \<Rightarrow> string \<Rightarrow> world \<Rightarrow> error option \<times> world" where
  "invokeSet bucket key v s =
     (case invoke (Set bucket key v) s of
        (Some err, s') \<Rightarrow> (Some err, s')
      | (None, s') \<Rightarrow> (None, s'\<lparr>buckets := (buckets s')(bucket := (buckets s' bucket)(key \<mapsto> v))\<rparr>))"

text \<open>
  Modelled from the spec: \<^verbatim>\<open>lazyContents\<close> and \<^verbatim>\<open>lazyLinkname\<close> are declared outside
  \<^verbatim>\<open>targetstateentry.go\<close>. A lazy value holds what resolving its source yields, the bytes
  or the error; it is resolved on first use and cached, and the checksum is derived from
  the content.
\<close>

type_synonym lazyContents = "error + string"

type_synonym lazyLinkname = "error + string"

definition force :: "lazy \<Rightarrow> world \<Rightarrow> world" where
  "force l s = (if l \<in> set (forced s) then s else s\<lparr>forced := forced s @ [l]\<rparr>)"

definition Contents :: "lazyContents \<Rightarrow> world \<Rightarrow> (error + string) \<times> world" where
  "Contents lc s = (lc, force OfTargetContents s)"

definition ContentsSHA256 :: "lazyContents \<Rightarrow> world \<Rightarrow> (error + string) \<times> world" where
  "ContentsSHA256 lc s =
     ((case lc of Inl err \<Rightarrow> Inl err | Inr contents \<Rightarrow> Inr (sha256Sum contents)),
      force OfTargetContents s)"

definition Linkname :: "lazyLinkname \<Rightarrow> world \<Rightarrow> (error + string) \<times> world" where
  "Linkname ll s = (ll, force OfTargetLinkname s)"

text \<open>
  Modelled from the spec: the name of the once-script bucket, a constant declared
  outside \<^verbatim>\<open>targetstateentry.go\<close>.
\<close>

definition scriptOnceStateBucket :: string where
  "scriptOnceStateBucket = ''scriptOnce''"

section \<open>Destination state\<close>

text \<open>
  Modelled from the spec: the \<^verbatim>\<open>DestStateEntry\<close> variants are declared outside
  \<^verbatim>\<open>targetstateentry.go\<close>, which uses their \<^verbatim>\<open>Path\<close>, \<^verbatim>\<open>Remove\<close>, \<^verbatim>\<open>perm\<close>,
  \<^verbatim>\<open>ContentsSHA256\<close> and \<^verbatim>\<open>Linkname\<close>. Every variant has its path; a Dir and a File have
  permissions; a File has a fallible checksum accessor and a Symlink a fallible link
  target accessor, each given by what it yields.
\<close>

datatype DestStateEntry =
    DestStateAbsent string
  | DestStateDir string FileMode
  | DestStateFile string FileMode "error + string"
  | DestStateSymlink string "error + string"

text \<open>
  Modelled from the spec: the checksum accessor of a destination File and the link
  target accessor of a destination Symlink yield what the entry holds, and count as
  resolved from then on.
\<close>

definition DestContentsSHA256 :: "error + string \<Rightarrow> world \<Rightarrow> (error + string) \<times> world" where
  "DestContentsSHA256 contentsSHA256 s = (contentsSHA256, force OfDestContents s)"

definition DestLinkname :: "error + string \<Rightarrow> world \<Rightarrow> (error + string) \<times> world" where
  "DestLinkname linkname s = (linkname, force OfDestLinkname s)"

fun Path :: "DestStateEntry \<Rightarrow> string" where
  "Path (DestStateAbsent path) = path"
| "Path (DestStateDir path perm) = path"
| "Path (DestStateFile path perm contentsSHA256) = path"
| "Path (DestStateSymlink path linkname) = path"

text \<open>
  Modelled from the spec: \<^verbatim>\<open>Remove\<close> removes whatever exists at the destination,
  recursively, unless the destination already does not exist.
\<close>

fun Remove :: "DestStateEntry \<Rightarrow> world \<Rightarrow> error option \<times> world" where
  "Remove (DestStateAbsent path) s = (None, s)"
| "Remove d s = invoke (RemoveAll (Path d)) s"

section \<open>Target state\<close>

text \<open>
  The five implementations of \<^verbatim>\<open>TargetStateEntry\<close> (lines 20-45), with the fields of
  each struct in the order of the source: \<open>TargetStateDir perm exact\<close>,
  \<open>TargetStateFile lazyContents perm\<close>, \<open>TargetStateScript lazyContents name once\<close>,
  \<open>TargetStateSymlink lazyLinkname\<close>.
\<close>

datatype TargetStateEntry =
    TargetStateAbsent
  | TargetStateDir FileMode bool
  | TargetStateFile lazyContents FileMode
  | TargetStateScript lazyContents string bool
  | TargetStateSymlink lazyLinkname

text \<open>\<^verbatim>\<open>isEmpty\<close> (lines 266-268).\<close>

definition isEmpty :: "string \<Rightarrow> bool" where
  "isEmpty data = (length (TrimSpace data) = 0)"

text \<open>
  The end of \<^verbatim>\<open>TargetStateFile.Apply\<close> (lines 123-127), reached from both branches of
  the type switch: the content is resolved and written with the target's permissions.
\<close>

definition writeContents :: "lazyContents \<Rightarrow> FileMode \<Rightarrow> DestStateEntry \<Rightarrow> world \<Rightarrow> error option \<times> world" where
  "writeContents lc perm d s =
     (case Contents lc s of
        (Inl err, s1) \<Rightarrow> (Some err, s1)
      | (Inr contents, s1) \<Rightarrow> invoke (WriteFile (Path d) contents perm) s1)"

text \<open>
  The end of \<^verbatim>\<open>TargetStateScript.Apply\<close> (lines 180-203), with the \<open>key\<close> and
  \<open>executedAt\<close> that lines 163-179 leave in the local variables.
\<close>

definition runScript :: "lazyContents \<Rightarrow> string \<Rightarrow> bool \<Rightarrow> string \<Rightarrow> Time \<Rightarrow> world \<Rightarrow> error option \<times> world" where
  "runScript lc name once key executedAt s =
     (case Contents lc s of
        (Inl err, s1) \<Rightarrow> (Some err, s1)
      | (Inr contents, s1) \<Rightarrow>
          if isEmpty contents then (None, s1)
          else
            (case invoke (RunScript name contents) s1 of
               (Some err, s2) \<Rightarrow> (Some err, s2)
             | (None, s2) \<Rightarrow>
                 if once then
                   (case Marshal s2 \<lparr>Name = name, ExecutedAt = executedAt\<rparr> of
                      Inl err \<Rightarrow> (Some err, s2)
                    | Inr v \<Rightarrow> invokeSet scriptOnceStateBucket key v s2)
                 else (None, s2)))"

text \<open>
  The end of \<^verbatim>\<open>TargetStateSymlink.Apply\<close> (lines 233-240): the link target is resolved,
  the destination removed and the symlink written.
\<close>

definition writeSymlink :: "lazyLinkname \<Rightarrow> DestStateEntry \<Rightarrow> world \<Rightarrow> error option \<times> world" where
  "writeSymlink ll d s =
     (case Linkname ll s of
        (Inl err, s1) \<Rightarrow> (Some err, s1)
      | (Inr linkname, s1) \<Rightarrow>
          (case Remove d s1 of
             (Some err, s2) \<Rightarrow> (Some err, s2)
           | (None, s2) \<Rightarrow> invoke (WriteSymlink linkname (Path d)) s2))"

text \<open>
  \<^verbatim>\<open>Apply\<close>: one equation per receiver type (lines 54, 73, 101, 157, 219). The result is
  the returned error and the environment after the call.
\<close>

fun Apply :: "TargetStateEntry \<Rightarrow> world \<Rightarrow> DestStateEntry \<Rightarrow> error option \<times> world" where
  "Apply TargetStateAbsent s d =
     (case d of
        DestStateAbsent _ \<Rightarrow> (None, s)
      | _ \<Rightarrow> invoke (RemoveAll (Path d)) s)"
| "Apply (TargetStateDir perm exact) s d =
     (case d of
        DestStateDir _ destPerm \<Rightarrow>
          if destPerm = perm then (None, s) else invoke (Chmod (Path d) perm) s
      | _ \<Rightarrow>
          (case Remove d s of
             (Some err, s1) \<Rightarrow> (Some err, s1)
           | (None, s1) \<Rightarrow> invoke (Mkdir (Path d) perm) s1))"
| "Apply (TargetStateFile lc perm) s d =
     (case d of
        DestStateFile _ destPerm destSum \<Rightarrow>
          (case DestContentsSHA256 destSum s of
             (Inl err, s1) \<Rightarrow> (Some err, s1)
           | (Inr destContentsSHA256, s1) \<Rightarrow>
               (case ContentsSHA256 lc s1 of
                  (Inl err, s2) \<Rightarrow> (Some err, s2)
                | (Inr contentsSHA256, s2) \<Rightarrow>
                    if destContentsSHA256 = contentsSHA256 then
                      (if destPerm = perm then (None, s2) else invoke (Chmod (Path d) perm) s2)
                    else writeContents lc perm d s2))
      | _ \<Rightarrow>
          (case Remove d s of
             (Some err, s1) \<Rightarrow> (Some err, s1)
           | (None, s1) \<Rightarrow> writeContents lc perm d s1))"
| "Apply (TargetStateScript lc name once) s d =
     (if once then
        (case ContentsSHA256 lc s of
           (Inl err, s1) \<Rightarrow> (Some err, s1)
         | (Inr contentsSHA256, s1) \<Rightarrow>
             (let key = name @ '':'' @ EncodeToString contentsSHA256
              in case invokeGet scriptOnceStateBucket key s1 of
                   (Inl err, s2) \<Rightarrow> (Some err, s2)
                 | (Inr (Some scriptOnceState), s2) \<Rightarrow> (None, s2)
                 | (Inr None, s2) \<Rightarrow> runScript lc name once key (now s2) s2))
      else runScript lc name once [] 0 s)"
| "Apply (TargetStateSymlink ll) s d =
     (case d of
        DestStateSymlink _ destLink \<Rightarrow>
          (case DestLinkname destLink s of
             (Inl err, s1) \<Rightarrow> (Some err, s1)
           | (Inr destLinkname, s1) \<Rightarrow>
               (case Linkname ll s1 of
                  (Inl err, s2) \<Rightarrow> (Some err, s2)
                | (Inr linkname, s2) \<Rightarrow>
                    if destLinkname = linkname then (None, s2) else writeSymlink ll d s2))
      | _ \<Rightarrow> writeSymlink ll d s)"

text \<open>
  \<^verbatim>\<open>Equal\<close> (lines 62, 87, 131, 206, 244): the returned pair and the environment after
  the call. Line 255 returns \<^verbatim>\<open>false, nil\<close> when the target's link name fails.
\<close>

fun Equal :: "TargetStateEntry \<Rightarrow> DestStateEntry \<Rightarrow> world \<Rightarrow> (bool \<times> error option) \<times> world" where
  "Equal TargetStateAbsent d s =
     (case d of DestStateAbsent _ \<Rightarrow> ((True, None), s) | _ \<Rightarrow> ((False, None), s))"
| "Equal (TargetStateDir perm exact) d s =
     (case d of
        DestStateDir _ destPerm \<Rightarrow> ((destPerm = perm, None), s)
      | _ \<Rightarrow> ((False, None), s))"
| "Equal (TargetStateFile lc perm) d s =
     (case d of
        DestStateFile _ destPerm destSum \<Rightarrow>
          if destPerm \<noteq> perm then ((False, None), s)
          else
            (case DestContentsSHA256 destSum s of
               (Inl err, s1) \<Rightarrow> ((False, Some err), s1)
             | (Inr destContentsSHA256, s1) \<Rightarrow>
                 (case ContentsSHA256 lc s1 of
                    (Inl err, s2) \<Rightarrow> ((False, Some err), s2)
                  | (Inr contentsSHA256, s2) \<Rightarrow>
                      ((destContentsSHA256 = contentsSHA256, None), s2)))
      | _ \<Rightarrow> ((False, None), s))"
| "Equal (TargetStateScript lc name once) d s = ((True, None), s)"
| "Equal (TargetStateSymlink ll) d s =
     (case d of
        DestStateSymlink _ destLink \<Rightarrow>
          (case DestLinkname destLink s of
             (Inl err, s1) \<Rightarrow> ((False, Some err), s1)
           | (Inr destLinkname, s1) \<Rightarrow>
               (case Linkname ll s1 of
                  (Inl err, s2) \<Rightarrow> ((False, None), s2)
                | (Inr linkname, s2) \<Rightarrow> ((destLinkname = linkname, None), s2)))
      | _ \<Rightarrow> ((False, None), s))"

text \<open>\<^verbatim>\<open>Evaluate\<close> (lines 68, 96, 151, 213, 261).\<close>

fun Evaluate :: "TargetStateEntry \<Rightarrow> world \<Rightarrow> error option \<times> world" where
  "Evaluate TargetStateAbsent s = (None, s)"
| "Evaluate (TargetStateDir perm exact) s = (None, s)"
| "Evaluate (TargetStateFile lc perm) s =
     (case ContentsSHA256 lc s of
        (Inl err, s1) \<Rightarrow> (Some err, s1)
      | (Inr _, s1) \<Rightarrow> (None, s1))"
| "Evaluate (TargetStateScript lc name once) s =
     (case ContentsSHA256 lc s of
        (Inl err, s1) \<Rightarrow> (Some err, s1)
      | (Inr _, s1) \<Rightarrow> (None, s1))"
| "Evaluate (TargetStateSymlink ll) s =
     (case Linkname ll s of
        (Inl err, s1) \<Rightarrow> (Some err, s1)
      | (Inr _, s1) \<Rightarrow> (None, s1))"

section \<open>Observing a call\<close>

text \<open>The calls the System received between the environments \<open>s\<close> and \<open>s'\<close>.\<close>

definition since :: "world \<Rightarrow> world \<Rightarrow> call list" where
  "since s s' = drop (length (calls s)) (calls s')"

text \<open>The calls that read or write the once-script ledger.\<close>

fun isLedgerCall :: "call \<Rightarrow> bool" where
  "isLedgerCall (Get bucket key) = True"
| "isLedgerCall (Set bucket key v) = True"
| "isLedgerCall _ = False"

fun isScript :: "TargetStateEntry \<Rightarrow> bool" where
  "isScript (TargetStateScript lc name once) = True"
| "isScript _ = False"

fun isFile :: "DestStateEntry \<Rightarrow> bool" where
  "isFile (DestStateFile path perm contentsSHA256) = True"
| "isFile _ = False"

fun isSymlink :: "DestStateEntry \<Rightarrow> bool" where
  "isSymlink (DestStateSymlink path linkname) = True"
| "isSymlink _ = False"

text \<open>The calls \<open>Remove\<close> makes on a destination state.\<close>

fun removal :: "DestStateEntry \<Rightarrow> call list" where
  "removal (DestStateAbsent path) = []"
| "removal d = [RemoveAll (Path d)]"

text \<open>The ledger key of line 170.\<close>

definition scriptOnceKey :: "string \<Rightarrow> string \<Rightarrow> string" where
  "scriptOnceKey name contents = name @ '':'' @ EncodeToString (sha256Sum contents)"

text \<open>
  An environment to run the methods in: a System that has received no call, fails none
  and stores nothing, at instant \<open>now0\<close>, with an encoder that never fails.
\<close>

definition recorder :: "Time \<Rightarrow> world" where
  "recorder now0 =
     \<lparr>calls = [], respond = (\<lambda>before c. None), buckets = (\<lambda>bucket key. None), now = now0,
      Marshal = (\<lambda>st. Inr (Name st)), forced = []\<rparr>"

section \<open>Facts about the environment\<close>

lemma force_fields [simp]:
  "calls (force l s) = calls s" "respond (force l s) = respond s"
  "buckets (force l s) = buckets s" "now (force l s) = now s" "Marshal (force l s) = Marshal s"
  by (simp_all add: force_def)

lemma invoke_fields [simp]:
  "fst (invoke c s) = respond s (calls s) c"
  "calls (snd (invoke c s)) = calls s @ [c]" "respond (snd (invoke c s)) = respond s"
  "buckets (snd (invoke c s)) = buckets s" "now (snd (invoke c s)) = now s"
  "Marshal (snd (invoke c s)) = Marshal s" "forced (snd (invoke c s)) = forced s"
  by (simp_all add: invoke_def)

lemma since_self [simp]: "since s s = []"
  by (simp add: since_def)

lemma since_force [simp]: "since s (force l s') = since s s'"
  by (simp add: since_def)

lemma recorder_fields [simp]:
  "calls (recorder t) = []" "respond (recorder t) = (\<lambda>before c. None)"
  "buckets (recorder t) = (\<lambda>bucket key. None)" "now (recorder t) = t"
  "Marshal (recorder t) = (\<lambda>st. Inr (Name st))" "forced (recorder t) = []"
  by (simp_all add: recorder_def)

lemmas file_defs =
  writeContents_def invoke_def Contents_def ContentsSHA256_def DestContentsSHA256_def since_def

lemmas script_defs =
  runScript_def invokeGet_def invokeSet_def invoke_def Contents_def ContentsSHA256_def
  since_def scriptOnceKey_def Let_def

lemmas space_defs =
  isEmpty_def TrimSpace_def leadingSpace_def trailingSpace_def spaceRunes_def

subsection \<open>Two digests\<close>

text \<open>The digests of \<open>old\<close> and \<open>new\<close>, as \<^verbatim>\<open>sha256sum\<close> prints them.\<close>

lemma sha256Sum_old:
  "EncodeToString (sha256Sum ''old'')
   = ''cba06b5736faf67e54b07b561eae94395e774c517a7d910a54369e1263ccfbd4''"
  by code_simp

lemma sha256Sum_new:
  "EncodeToString (sha256Sum ''new'')
   = ''11507a0e2f5e69d5dfa40a62a1bd7b6ee57e6bcd85c67c9b8431b36fff21c437''"
  by code_simp

lemma digests_differ: "sha256Sum ''old'' \<noteq> sha256Sum ''new''"
proof
  assume "sha256Sum ''old'' = sha256Sum ''new''"
  then have "EncodeToString (sha256Sum ''old'') = EncodeToString (sha256Sum ''new'')"
    by simp
  then show False
    by (simp add: sha256Sum_old sha256Sum_new)
qed

section \<open>Directories\<close>

text \<open>
  C8. Two \<^verbatim>\<open>TargetStateDir\<close> values with the same permissions and different \<open>exact\<close>
  flags give, for every destination state and every environment, the same result and
  the same environment afterwards (hence the same System calls) in \<^verbatim>\<open>Apply\<close>,
  \<^verbatim>\<open>Equal\<close> and \<^verbatim>\<open>Evaluate\<close>: the flag has no effect on this entry.
\<close>

theorem exact_flag_has_no_effect:
  "Apply (TargetStateDir perm exact) s d = Apply (TargetStateDir perm exact') s d
   \<and> Equal (TargetStateDir perm exact) d s = Equal (TargetStateDir perm exact') d s
   \<and> Evaluate (TargetStateDir perm exact) s = Evaluate (TargetStateDir perm exact') s"
  by simp

section \<open>Files\<close>

text \<open>
  C10. When the destination is a File whose permissions differ from the target's,
  \<^verbatim>\<open>TargetStateFile.Equal\<close> returns \<^verbatim>\<open>false, nil\<close> and leaves the environment as it
  was: neither checksum is resolved, whatever resolving them would yield.
\<close>

theorem File_Equal_perm_short_circuit:
  "destPerm \<noteq> perm \<Longrightarrow>
   Equal (TargetStateFile lc perm) (DestStateFile path destPerm destSum) s = ((False, None), s)"
  by simp

text \<open>
  C10 at a target with permissions \<open>0600\<close> and a destination with permissions \<open>0644\<close>
  whose checksum cannot be read: no error comes back.
\<close>

theorem File_Equal_perm_short_circuit_witness:
  "Equal (TargetStateFile (Inr ''export A=1'') 0x180)
     (DestStateFile ''/home/user/.profile'' 0x1A4 (Inl (Error ''permission denied''))) (recorder 7)
   = ((False, None), recorder 7)"
proof -
  have differ: "(0x1A4 :: FileMode) \<noteq> 0x180" by simp
  show ?thesis
    using File_Equal_perm_short_circuit [OF differ] .
qed

text \<open>
  C7. When the destination is a File whose checksum is the target's: if the permissions
  differ, \<^verbatim>\<open>Apply\<close> makes exactly one call, a \<^verbatim>\<open>Chmod\<close> of the destination path to the
  target's permissions (so no \<^verbatim>\<open>WriteFile\<close>), and returns what that call returns; if
  the permissions are the same, it makes no call and returns \<^verbatim>\<open>nil\<close>.
\<close>

theorem File_Apply_same_contents:
  "fst (Apply (TargetStateFile (Inr contents) perm) s
          (DestStateFile path destPerm (Inr (sha256Sum contents))))
     = (if destPerm = perm then None else respond s (calls s) (Chmod path perm))
   \<and> since s (snd (Apply (TargetStateFile (Inr contents) perm) s
          (DestStateFile path destPerm (Inr (sha256Sum contents)))))
     = (if destPerm = perm then [] else [Chmod path perm])"
  by (simp add: ContentsSHA256_def DestContentsSHA256_def invoke_def since_def)

text \<open>
  C1, as the code has it. For a target whose content resolves:
  \<^item> when the destination is a File whose checksum resolves and differs from the
    target's, \<^verbatim>\<open>Apply\<close> makes exactly one call, the \<^verbatim>\<open>WriteFile\<close> of the target's content
    with the target's permissions at the destination path, and returns what it returns:
    the file is written over, with no removal;
  \<^item> when the destination is not a File and its removal does not fail, \<^verbatim>\<open>Apply\<close> makes
    the calls of the removal (one \<^verbatim>\<open>RemoveAll\<close> of the destination path, none when the
    destination is Absent) and then that \<^verbatim>\<open>WriteFile\<close>, and returns what it returns.
\<close>

theorem File_Apply_writes_contents:
  fixes s :: world and contents :: string and perm :: FileMode
  defines "t \<equiv> TargetStateFile (Inr contents) perm"
  shows "(h \<noteq> sha256Sum contents \<longrightarrow>
            since s (snd (Apply t s (DestStateFile path destPerm (Inr h))))
              = [WriteFile path contents perm]
            \<and> fst (Apply t s (DestStateFile path destPerm (Inr h)))
              = respond s (calls s) (WriteFile path contents perm))
       \<and> (\<not> isFile d \<and> list_all (\<lambda>c. respond s (calls s) c = None) (removal d) \<longrightarrow>
            since s (snd (Apply t s d)) = removal d @ [WriteFile (Path d) contents perm]
            \<and> fst (Apply t s d)
              = respond s (calls s @ removal d) (WriteFile (Path d) contents perm))"
  unfolding t_def by (cases d) (simp_all add: file_defs)

text \<open>
  C1 as the code has it, at a destination File holding \<open>old\<close> and at a destination
  Symlink, for the target content \<open>new\<close>.
\<close>

theorem File_Apply_writes_contents_witness:
  "since (recorder 7)
     (snd (Apply (TargetStateFile (Inr ''new'') 0x180) (recorder 7)
        (DestStateFile ''/home/user/.netrc'' 0x180 (Inr (sha256Sum ''old'')))))
     = [WriteFile ''/home/user/.netrc'' ''new'' 0x180]
   \<and> since (recorder 7)
     (snd (Apply (TargetStateFile (Inr ''new'') 0x180) (recorder 7)
        (DestStateSymlink ''/home/user/.netrc'' (Inr ''/tmp/netrc''))))
     = [RemoveAll ''/home/user/.netrc'', WriteFile ''/home/user/.netrc'' ''new'' 0x180]"
proof -
  note both = File_Apply_writes_contents [where h = "sha256Sum ''old''" and contents = "''new''"
      and s = "recorder 7" and perm = "0x180" and path = "''/home/user/.netrc''"
      and destPerm = "0x180"
      and d = "DestStateSymlink ''/home/user/.netrc'' (Inr ''/tmp/netrc'')"]
  show ?thesis
    using both digests_differ by simp
qed

text \<open>
  C1 as stated fails: the destination is a File whose content \<open>old\<close> has another
  checksum than the target's \<open>new\<close>, so an entry exists there, and \<^verbatim>\<open>Apply\<close> makes the
  \<^verbatim>\<open>WriteFile\<close> call alone; no \<^verbatim>\<open>RemoveAll\<close> precedes it.
\<close>

theorem File_Apply_overwrites_without_removal:
  "sha256Sum ''old'' \<noteq> sha256Sum ''new''
   \<and> since (recorder 7)
       (snd (Apply (TargetStateFile (Inr ''new'') 0x1A4) (recorder 7)
          (DestStateFile ''/home/user/.bashrc'' 0x1A4 (Inr (sha256Sum ''old'')))))
     = [WriteFile ''/home/user/.bashrc'' ''new'' 0x1A4]
   \<and> RemoveAll ''/home/user/.bashrc''
       \<notin> set (calls (snd (Apply (TargetStateFile (Inr ''new'') 0x1A4) (recorder 7)
                  (DestStateFile ''/home/user/.bashrc'' 0x1A4 (Inr (sha256Sum ''old''))))))"
  using digests_differ by (simp add: file_defs)

section \<open>Symlinks and resolution errors\<close>

text \<open>
  C2. The code does not do what the claim says: when the destination is a Symlink whose
  link target resolves and resolving the target's own link name fails with \<open>err\<close>,
  \<^verbatim>\<open>TargetStateSymlink.Equal\<close> (line 255) returns \<^verbatim>\<open>false, nil\<close>, having resolved both
  link names; \<open>err\<close> is lost.
\<close>

theorem Symlink_Equal_drops_target_error:
  "Equal (TargetStateSymlink (Inl err)) (DestStateSymlink path (Inr destLinkname)) s
   = ((False, None), force OfTargetLinkname (force OfDestLinkname s))"
  by (simp add: Linkname_def DestLinkname_def)

text \<open>
  Everywhere else a resolution that fails is returned as it is: the target's by
  \<^verbatim>\<open>Evaluate\<close>, by \<^verbatim>\<open>Apply\<close> and by \<^verbatim>\<open>TargetStateFile.Equal\<close> wherever they resolve it,
  and the destination's by \<^verbatim>\<open>Apply\<close> and \<^verbatim>\<open>Equal\<close>.
\<close>

lemma resolution_errors_returned:
  "fst (Evaluate (TargetStateFile (Inl err) perm) s) = Some err"
  "fst (Evaluate (TargetStateScript (Inl err) name once) s) = Some err"
  "fst (Evaluate (TargetStateSymlink (Inl err)) s) = Some err"
  "fst (Apply (TargetStateScript (Inl err) name once) s d) = Some err"
  "fst (Apply (TargetStateSymlink (Inl err)) s (DestStateSymlink path (Inr destLinkname))) = Some err"
  "\<not> isSymlink d \<Longrightarrow> fst (Apply (TargetStateSymlink (Inl err)) s d) = Some err"
  "fst (Apply (TargetStateFile (Inl err) perm) s (DestStateFile path destPerm (Inr h))) = Some err"
  "\<not> isFile d \<Longrightarrow> list_all (\<lambda>c. respond s (calls s) c = None) (removal d) \<Longrightarrow>
     fst (Apply (TargetStateFile (Inl err) perm) s d) = Some err"
  "fst (Equal (TargetStateFile (Inl err) perm) (DestStateFile path perm (Inr h)) s)
     = (False, Some err)"
  by (cases d; simp add: file_defs script_defs writeSymlink_def Linkname_def DestLinkname_def)+

lemma dest_errors_returned:
  "fst (Apply (TargetStateFile lc perm) s (DestStateFile path destPerm (Inl err))) = Some err"
  "fst (Apply (TargetStateSymlink ll) s (DestStateSymlink path (Inl err))) = Some err"
  "fst (Equal (TargetStateFile lc perm) (DestStateFile path perm (Inl err)) s) = (False, Some err)"
  "fst (Equal (TargetStateSymlink ll) (DestStateSymlink path (Inl err)) s) = (False, Some err)"
  by (simp_all add: file_defs DestLinkname_def)

section \<open>Scripts\<close>

text \<open>
  C9. With \<open>once = false\<close>, \<^verbatim>\<open>TargetStateScript.Apply\<close> only adds calls to those the
  System had received, none of the added calls is a \<^verbatim>\<open>Get\<close> or a \<^verbatim>\<open>Set\<close>, and the
  store is unchanged.
\<close>

theorem Script_not_once_leaves_ledger:
  "filter isLedgerCall (since s (snd (Apply (TargetStateScript lc name False) s d))) = []
   \<and> take (length (calls s)) (calls (snd (Apply (TargetStateScript lc name False) s d))) = calls s
   \<and> buckets (snd (Apply (TargetStateScript lc name False) s d)) = buckets s"
  by (simp add: runScript_def Contents_def invoke_def since_def split: sum.splits option.splits)

text \<open>
  C5, as the code has it. For a script whose content is empty after trimming, \<^verbatim>\<open>Apply\<close>
  never calls \<^verbatim>\<open>RunScript\<close> and never calls \<^verbatim>\<open>Set\<close>, and the store is unchanged: with
  \<open>once = false\<close> it makes no call and returns \<^verbatim>\<open>nil\<close>; with \<open>once = true\<close> its only call
  is the \<^verbatim>\<open>Get\<close> of the script's key, and it returns \<^verbatim>\<open>nil\<close> unless that \<^verbatim>\<open>Get\<close> fails,
  whose error it then returns.
\<close>

theorem Script_empty_is_skipped:
  assumes "isEmpty contents"
  shows "since s (snd (Apply (TargetStateScript (Inr contents) name once) s d))
           = (if once then [Get scriptOnceStateBucket (scriptOnceKey name contents)] else [])
       \<and> buckets (snd (Apply (TargetStateScript (Inr contents) name once) s d)) = buckets s
       \<and> fst (Apply (TargetStateScript (Inr contents) name once) s d)
           = (if once then respond s (calls s) (Get scriptOnceStateBucket (scriptOnceKey name contents))
              else None)"
  using assms by (simp add: script_defs split: option.splits)

text \<open>
  C5 as the code has it, at the content of three spaces, a newline and a tab, with
  \<open>once = true\<close>, where no call fails.
\<close>

theorem Script_empty_is_skipped_witness:
  "since (recorder 7)
     (snd (Apply (TargetStateScript (Inr [CHR '' '', CHR '' '', CHR '' '', CHR 0x0A, CHR 0x09]) ''setup'' True)
        (recorder 7) (DestStateAbsent ''/home/user/setup'')))
   = [Get scriptOnceStateBucket
        (scriptOnceKey ''setup'' [CHR '' '', CHR '' '', CHR '' '', CHR 0x0A, CHR 0x09])]
   \<and> fst (Apply (TargetStateScript (Inr [CHR '' '', CHR '' '', CHR '' '', CHR 0x0A, CHR 0x09]) ''setup'' True)
        (recorder 7) (DestStateAbsent ''/home/user/setup'')) = None"
proof -
  have blank: "isEmpty [CHR '' '', CHR '' '', CHR '' '', CHR 0x0A, CHR 0x09]"
    by (simp add: space_defs)
  show ?thesis
    using Script_empty_is_skipped [OF blank, of "recorder 7" "''setup''" True
        "DestStateAbsent ''/home/user/setup''"]
    by simp
qed

text \<open>
  C5 as stated fails: the same blank script with \<open>once = true\<close>, on a System whose ledger
  calls fail, does not return success; \<^verbatim>\<open>Apply\<close> returns the error of the \<^verbatim>\<open>Get\<close>.
\<close>

theorem Script_empty_lookup_failure:
  "isEmpty [CHR '' '', CHR '' '', CHR '' '', CHR 0x0A, CHR 0x09]
   \<and> fst (Apply (TargetStateScript (Inr [CHR '' '', CHR '' '', CHR '' '', CHR 0x0A, CHR 0x09]) ''setup'' True)
        ((recorder 7)\<lparr>respond := (\<lambda>before c.
            if isLedgerCall c then Some (Error ''database is locked'') else None)\<rparr>)
        (DestStateAbsent ''/home/user/setup''))
     = Some (Error ''database is locked'')"
  by (simp add: script_defs space_defs)

text \<open>
  C6. For a script whose content resolves and is not empty, when \<open>once\<close> is set and the
  ledger lookup found no record:
  \<^item> if \<^verbatim>\<open>RunScript\<close> fails with \<open>err\<close>, \<^verbatim>\<open>Apply\<close> returns \<open>err\<close>, \<^verbatim>\<open>RunScript\<close> is its
    last call (so there is no \<^verbatim>\<open>Set\<close>) and the store is unchanged, whatever \<open>once\<close> is;
  \<^item> if \<open>once\<close> is set, \<^verbatim>\<open>RunScript\<close> succeeds and the \<^verbatim>\<open>Set\<close> of the encoded record fails
    with \<open>err\<close>, \<^verbatim>\<open>Apply\<close> returns \<open>err\<close>, and the \<^verbatim>\<open>RunScript\<close> call stays among the
    calls made: the execution is neither undone nor hidden.
\<close>

theorem Script_errors_surface:
  fixes s :: world and d :: DestStateEntry and name contents :: string and once :: bool
  defines "key \<equiv> scriptOnceKey name contents"
  defines "asked \<equiv> (if once then [Get scriptOnceStateBucket key] else [])"
  defines "result \<equiv> Apply (TargetStateScript (Inr contents) name once) s d"
  assumes "\<not> isEmpty contents"
    and "once \<longrightarrow> respond s (calls s) (Get scriptOnceStateBucket key) = None
                 \<and> buckets s scriptOnceStateBucket key = None"
  shows "(respond s (calls s @ asked) (RunScript name contents) = Some err \<longrightarrow>
            fst result = Some err
            \<and> since s (snd result) = asked @ [RunScript name contents]
            \<and> buckets (snd result) = buckets s)
       \<and> (once \<and> respond s (calls s @ asked) (RunScript name contents) = None
            \<and> Marshal s \<lparr>Name = name, ExecutedAt = now s\<rparr> = Inr v
            \<and> respond s (calls s @ asked @ [RunScript name contents])
                 (Set scriptOnceStateBucket key v) = Some err \<longrightarrow>
            fst result = Some err
            \<and> since s (snd result)
                = asked @ [RunScript name contents, Set scriptOnceStateBucket key v]
            \<and> buckets (snd result) = buckets s)"
  using assms by (auto simp add: script_defs split: option.splits)

text \<open>
  C6 at the script \<open>setup\<close> with content \<open>echo hi\<close>: without \<open>once\<close> on a System whose
  \<^verbatim>\<open>RunScript\<close> fails, and with \<open>once\<close> on a System whose \<^verbatim>\<open>Set\<close> fails.
\<close>

theorem Script_errors_surface_witness:
  "fst (Apply (TargetStateScript (Inr ''echo hi'') ''setup'' False)
          ((recorder 7)\<lparr>respond := (\<lambda>before c.
              if c = RunScript ''setup'' ''echo hi'' then Some (Error ''exit status 1'') else None)\<rparr>)
          (DestStateAbsent ''/home/user/setup''))
     = Some (Error ''exit status 1'')
   \<and> fst (Apply (TargetStateScript (Inr ''echo hi'') ''setup'' True)
          ((recorder 7)\<lparr>respond := (\<lambda>before c.
              if c = Set scriptOnceStateBucket (scriptOnceKey ''setup'' ''echo hi'') ''setup''
              then Some (Error ''database is locked'') else None)\<rparr>)
          (DestStateAbsent ''/home/user/setup''))
     = Some (Error ''database is locked'')
   \<and> since ((recorder 7)\<lparr>respond := (\<lambda>before c.
              if c = Set scriptOnceStateBucket (scriptOnceKey ''setup'' ''echo hi'') ''setup''
              then Some (Error ''database is locked'') else None)\<rparr>)
       (snd (Apply (TargetStateScript (Inr ''echo hi'') ''setup'' True)
          ((recorder 7)\<lparr>respond := (\<lambda>before c.
              if c = Set scriptOnceStateBucket (scriptOnceKey ''setup'' ''echo hi'') ''setup''
              then Some (Error ''database is locked'') else None)\<rparr>)
          (DestStateAbsent ''/home/user/setup'')))
     = [Get scriptOnceStateBucket (scriptOnceKey ''setup'' ''echo hi''),
        RunScript ''setup'' ''echo hi'',
        Set scriptOnceStateBucket (scriptOnceKey ''setup'' ''echo hi'') ''setup'']"
proof -
  have not_blank: "\<not> isEmpty ''echo hi''"
    by (simp add: space_defs)
  note run_fails =
    Script_errors_surface [where contents = "''echo hi''" and once = False and name = "''setup''"
      and err = "Error ''exit status 1''" and d = "DestStateAbsent ''/home/user/setup''"
      and s = "(recorder 7)\<lparr>respond := (\<lambda>before c.
          if c = RunScript ''setup'' ''echo hi'' then Some (Error ''exit status 1'') else None)\<rparr>"]
  note set_fails =
    Script_errors_surface [where contents = "''echo hi''" and once = True and name = "''setup''"
      and err = "Error ''database is locked''" and v = "''setup''"
      and d = "DestStateAbsent ''/home/user/setup''"
      and s = "(recorder 7)\<lparr>respond := (\<lambda>before c.
          if c = Set scriptOnceStateBucket (scriptOnceKey ''setup'' ''echo hi'') ''setup''
          then Some (Error ''database is locked'') else None)\<rparr>"]
  show ?thesis
    using run_fails set_fails not_blank by simp
qed

text \<open>
  C3. For a script with \<open>once = true\<close> whose content resolves, \<^verbatim>\<open>Apply\<close> first makes the
  \<^verbatim>\<open>Get\<close> of the key \<open>name + ":" + hex(SHA-256 of the content)\<close> in the ledger bucket.
  When that call does not fail:
  \<^item> if it finds a record, \<^verbatim>\<open>Apply\<close> returns \<^verbatim>\<open>nil\<close>, the \<^verbatim>\<open>Get\<close> is its only call (no
    \<^verbatim>\<open>RunScript\<close>, no \<^verbatim>\<open>Set\<close>) and the store is unchanged;
  \<^item> if it finds none, the content is not empty, \<^verbatim>\<open>RunScript\<close> succeeds and the record
    \<open>{name, executedAt}\<close> is encoded as \<open>v\<close>, the next and last call is the \<^verbatim>\<open>Set\<close> of
    \<open>v\<close> under the same key, whose result \<^verbatim>\<open>Apply\<close> returns; when it is \<^verbatim>\<open>nil\<close> the
    store holds \<open>v\<close> under the key, and a second \<^verbatim>\<open>Apply\<close> of the same script, on any
    destination state, returns \<^verbatim>\<open>nil\<close> after a \<^verbatim>\<open>Get\<close> alone: no execution, no ledger
    write.
\<close>

theorem Script_once_runs_once:
  fixes s :: world and d d' :: DestStateEntry and name contents :: string
  defines "key \<equiv> scriptOnceKey name contents"
  defines "t \<equiv> TargetStateScript (Inr contents) name True"
  defines "s' \<equiv> snd (Apply t s d)"
  assumes "respond s (calls s) (Get scriptOnceStateBucket key) = None"
  shows "(buckets s scriptOnceStateBucket key = Some r \<longrightarrow>
            fst (Apply t s d) = None \<and> since s s' = [Get scriptOnceStateBucket key]
            \<and> buckets s' = buckets s)
       \<and> (buckets s scriptOnceStateBucket key = None \<and> \<not> isEmpty contents
            \<and> respond s (calls s @ [Get scriptOnceStateBucket key]) (RunScript name contents) = None
            \<and> Marshal s \<lparr>Name = name, ExecutedAt = now s\<rparr> = Inr v \<longrightarrow>
            since s s' = [Get scriptOnceStateBucket key, RunScript name contents,
                          Set scriptOnceStateBucket key v]
            \<and> fst (Apply t s d)
                = respond s (calls s @ [Get scriptOnceStateBucket key, RunScript name contents])
                    (Set scriptOnceStateBucket key v)
            \<and> (fst (Apply t s d) = None
                 \<and> respond s (calls s') (Get scriptOnceStateBucket key) = None \<longrightarrow>
                 buckets s' scriptOnceStateBucket key = Some v
                 \<and> fst (Apply t s' d') = None
                 \<and> since s' (snd (Apply t s' d')) = [Get scriptOnceStateBucket key]
                 \<and> buckets (snd (Apply t s' d')) = buckets s'))"
  using assms by (auto simp add: script_defs split: option.splits)

text \<open>
  C3 at the script \<open>setup\<close> with content \<open>echo hi\<close>: a first \<^verbatim>\<open>Apply\<close> on an empty
  ledger, a second one after it, and one on a ledger that already holds a record.
\<close>

theorem Script_once_runs_once_witness:
  "since (recorder 7)
     (snd (Apply (TargetStateScript (Inr ''echo hi'') ''setup'' True) (recorder 7)
        (DestStateAbsent ''/home/user/setup'')))
     = [Get scriptOnceStateBucket (scriptOnceKey ''setup'' ''echo hi''),
        RunScript ''setup'' ''echo hi'',
        Set scriptOnceStateBucket (scriptOnceKey ''setup'' ''echo hi'') ''setup'']
   \<and> since
       (snd (Apply (TargetStateScript (Inr ''echo hi'') ''setup'' True) (recorder 7)
          (DestStateAbsent ''/home/user/setup'')))
       (snd (Apply (TargetStateScript (Inr ''echo hi'') ''setup'' True)
          (snd (Apply (TargetStateScript (Inr ''echo hi'') ''setup'' True) (recorder 7)
             (DestStateAbsent ''/home/user/setup'')))
          (DestStateAbsent ''/home/user/setup'')))
     = [Get scriptOnceStateBucket (scriptOnceKey ''setup'' ''echo hi'')]
   \<and> since ((recorder 7)\<lparr>buckets := (\<lambda>bucket key. Some ''setup'')\<rparr>)
       (snd (Apply (TargetStateScript (Inr ''echo hi'') ''setup'' True)
          ((recorder 7)\<lparr>buckets := (\<lambda>bucket key. Some ''setup'')\<rparr>)
          (DestStateAbsent ''/home/user/setup'')))
     = [Get scriptOnceStateBucket (scriptOnceKey ''setup'' ''echo hi'')]"
proof -
  have not_blank: "\<not> isEmpty ''echo hi''"
    by (simp add: space_defs)
  have asked: "respond (recorder 7) (calls (recorder 7))
                 (Get scriptOnceStateBucket (scriptOnceKey ''setup'' ''echo hi'')) = None"
    by simp
  have asked': "respond ((recorder 7)\<lparr>buckets := (\<lambda>bucket key. Some ''setup'')\<rparr>)
                  (calls ((recorder 7)\<lparr>buckets := (\<lambda>bucket key. Some ''setup'')\<rparr>))
                  (Get scriptOnceStateBucket (scriptOnceKey ''setup'' ''echo hi'')) = None"
    by simp
  note first = Script_once_runs_once [OF asked, where v = "''setup''"
      and d = "DestStateAbsent ''/home/user/setup''" and d' = "DestStateAbsent ''/home/user/setup''"]
  note recorded = Script_once_runs_once [OF asked', where r = "''setup''"
      and d = "DestStateAbsent ''/home/user/setup''"]
  show ?thesis
    using first recorded not_blank by simp
qed

section \<open>Equal and Apply\<close>

text \<open>
  C4. For a target that is Absent, a Dir, a File or a Symlink and every destination
  state: if \<^verbatim>\<open>Equal\<close> returns \<^verbatim>\<open>true, nil\<close>, then \<^verbatim>\<open>Apply\<close> returns \<^verbatim>\<open>nil\<close> and the
  System has received no call at all, so none of \<^verbatim>\<open>WriteFile\<close>, \<^verbatim>\<open>Chmod\<close>, \<^verbatim>\<open>Mkdir\<close>,
  \<^verbatim>\<open>RemoveAll\<close>, \<^verbatim>\<open>WriteSymlink\<close>.
\<close>

theorem Equal_then_Apply_no_mutation:
  assumes "fst (Equal t d s0) = (True, None)" and "\<not> isScript t"
  shows "fst (Apply t s d) = None \<and> calls (snd (Apply t s d)) = calls s"
  using assms
  by (cases t; cases d)
     (auto simp add: ContentsSHA256_def DestContentsSHA256_def Linkname_def DestLinkname_def
        split: sum.splits if_splits)

text \<open>C4 at a symlink to \<open>/etc/passwd\<close> that is already in place.\<close>

theorem Equal_then_Apply_no_mutation_witness:
  "fst (Apply (TargetStateSymlink (Inr ''/etc/passwd'')) (recorder 7)
          (DestStateSymlink ''/home/user/passwd'' (Inr ''/etc/passwd''))) = None
   \<and> calls (snd (Apply (TargetStateSymlink (Inr ''/etc/passwd'')) (recorder 7)
          (DestStateSymlink ''/home/user/passwd'' (Inr ''/etc/passwd'')))) = []"
proof -
  have eq: "fst (Equal (TargetStateSymlink (Inr ''/etc/passwd''))
                  (DestStateSymlink ''/home/user/passwd'' (Inr ''/etc/passwd'')) (recorder 7))
            = (True, None)"
    by (simp add: Linkname_def DestLinkname_def)
  have target: "\<not> isScript (TargetStateSymlink (Inr ''/etc/passwd''))" by simp
  show ?thesis
    using Equal_then_Apply_no_mutation [OF eq target, of "recorder 7"] by simp
qed

end
